theory Spec2Isabelle
  imports Main "HOL-Library.Sublist"
begin

section \<open>Python string primitives\<close>

text \<open>
  Python strings are modelled as Isabelle strings, read as ASCII text. The character
  classes are those of Python 3 on ASCII code points: \<open>\w\<close> is a letter, a digit or the
  underscore; \<open>\d\<close> is a decimal digit; \<open>\s\<close> and \<open>str.strip\<close> treat the code points
  9 to 13 and 28 to 32 as white space; \<open>str.lower\<close> maps \<open>A\<close> to \<open>Z\<close> onto
  \<open>a\<close> to \<open>z\<close>. Code points above 127 belong to no class and have no case in this
  model. Python's \<open>p in s\<close> on strings is \<^const>\<open>sublist\<close>, \<open>s.startswith(p)\<close> is
  \<^const>\<open>prefix\<close>.
\<close>

abbreviation NL :: char where
  "NL \<equiv> CHR 0x0A"

definition is_upper :: "char \<Rightarrow> bool" where
  "is_upper c = (let n = (of_char c :: nat) in 65 \<le> n \<and> n \<le> 90)"

definition is_lower :: "char \<Rightarrow> bool" where
  "is_lower c = (let n = (of_char c :: nat) in 97 \<le> n \<and> n \<le> 122)"

definition is_digit :: "char \<Rightarrow> bool" where
  "is_digit c = (let n = (of_char c :: nat) in 48 \<le> n \<and> n \<le> 57)"

definition is_word :: "char \<Rightarrow> bool" where
  "is_word c = (is_upper c \<or> is_lower c \<or> is_digit c \<or> c = CHR ''_'')"

definition is_space :: "char \<Rightarrow> bool" where
  "is_space c = (let n = (of_char c :: nat) in (9 \<le> n \<and> n \<le> 13) \<or> (28 \<le> n \<and> n \<le> 32))"

definition lower_char :: "char \<Rightarrow> char" where
  "lower_char c = (if is_upper c then char_of ((of_char c :: nat) + 32) else c)"

definition lower :: "string \<Rightarrow> string" where
  "lower s = map lower_char s"

definition lstrip :: "string \<Rightarrow> string" where
  "lstrip s = dropWhile is_space s"

definition rstrip :: "string \<Rightarrow> string" where
  "rstrip s = rev (dropWhile is_space (rev s))"

definition strip :: "string \<Rightarrow> string" where
  "strip s = rstrip (lstrip s)"

text \<open>\<open>re.findall\<close> of a one-or-more repetition of a character class: the maximal runs.\<close>

function findall :: "(char \<Rightarrow> bool) \<Rightarrow> string \<Rightarrow> string list" where
  "findall P [] = []"
| "findall P (c # cs) =
     (if P c then takeWhile P (c # cs) # findall P (dropWhile P cs) else findall P cs)"
  by pat_completeness auto
termination
  by (relation "measure (\<lambda>(P, s). length s)")
     (auto simp: le_imp_less_Suc length_dropWhile_le)

text \<open>\<open>sep.join(xs)\<close>.\<close>

fun join :: "string \<Rightarrow> string list \<Rightarrow> string" where
  "join sep [] = []"
| "join sep [x] = x"
| "join sep (x # y # ys) = x @ sep @ join sep (y # ys)"

section \<open>The intersection retriever (retriever.py)\<close>

record signature =
  params :: "string list option"
  returns :: "string option"

text \<open>
  A value of the index: a dict whose keys \<open>source\<close>, \<open>filename\<close> and \<open>signature\<close> may
  each be absent (the code reads them with \<open>.get\<close> and a default), or the legacy bare
  source string.
\<close>

record entry =
  e_source :: "string option"
  e_filename :: "string option"
  e_signature :: "signature option"

datatype chunk_data = Legacy string | Structured entry

text \<open>The index is a JSON object: unique keys, iterated in their stored order.\<close>

type_synonym index = "(string \<times> chunk_data) list"

text \<open>A retrieved chunk: a dict with the keys \<open>source\<close>, \<open>filename\<close>, \<open>func_name\<close>, \<open>signature\<close>.\<close>

record chunk =
  c_source :: "string option"
  c_filename :: "string option"
  c_func_name :: "string option"
  c_signature :: "signature option"

definition default_signature :: signature where
  "default_signature = \<lparr>params = Some [], returns = None\<rparr>"

definition source_of :: "chunk_data \<Rightarrow> string" where
  "source_of chunk_data =
     (case chunk_data of
        Structured e \<Rightarrow> (case e_source e of Some s \<Rightarrow> s | None \<Rightarrow> '''')
      | Legacy s \<Rightarrow> s)"

definition filename_of :: "chunk_data \<Rightarrow> string" where
  "filename_of chunk_data =
     (case chunk_data of
        Structured e \<Rightarrow> (case e_filename e of Some f \<Rightarrow> f | None \<Rightarrow> ''unknown'')
      | Legacy s \<Rightarrow> ''unknown'')"

definition signature_of :: "chunk_data \<Rightarrow> signature" where
  "signature_of chunk_data =
     (case chunk_data of
        Structured e \<Rightarrow> (case e_signature e of Some g \<Rightarrow> g | None \<Rightarrow> default_signature)
      | Legacy s \<Rightarrow> default_signature)"

text \<open>The inner loop over \<open>target_tokens\<close>, leaving at the first token found in neither text.\<close>

fun matches_all :: "string list \<Rightarrow> string \<Rightarrow> string \<Rightarrow> bool" where
  "matches_all [] source_lower func_name_lower = True"
| "matches_all (token # rest) source_lower func_name_lower =
     (let token_lower = lower token in
      if \<not> sublist token_lower source_lower \<and> \<not> sublist token_lower func_name_lower
      then False
      else matches_all rest source_lower func_name_lower)"

definition result_chunk :: "string \<times> chunk_data \<Rightarrow> chunk" where
  "result_chunk item =
     \<lparr>c_source = Some (source_of (snd item)),
      c_filename = Some (filename_of (snd item)),
      c_func_name = Some (fst item),
      c_signature = Some (signature_of (snd item))\<rparr>"

text \<open>The loop over \<open>self.index.items()\<close>, appending to \<open>final_results\<close>.\<close>

fun search_loop :: "string list \<Rightarrow> index \<Rightarrow> chunk list" where
  "search_loop target_tokens [] = []"
| "search_loop target_tokens (item # items) =
     (if matches_all target_tokens (lower (source_of (snd item))) (lower (fst item))
      then result_chunk item # search_loop target_tokens items
      else search_loop target_tokens items)"

text \<open>
  \<open>IntersectionEngine.search\<close>. The tokens are a Python set: \<^const>\<open>remdups\<close> removes
  the duplicates; the order in which the set is iterated does not affect the result.
\<close>

definition search :: "index \<Rightarrow> string \<Rightarrow> chunk list option" where
  "search index query =
     (let tokens = remdups (findall is_word query);
          target_tokens = filter (\<lambda>t. length t > 3) tokens
      in if target_tokens = [] then None
         else (let final_results = search_loop target_tokens index
               in if final_results = [] then None else Some final_results))"

section \<open>The indexer (indexer.py)\<close>

text \<open>
  The tree-sitter parse of a file is input data. A captured definition node carries the
  text of its byte range, the text of its \<open>name\<close> field when it has one, and the
  children of its \<open>parameters\<close> field when it has one (a class definition has none).
  A child of the parameter list is an identifier, a typed parameter, a default parameter
  or anything else (punctuation, a typed default parameter, a splat pattern, a separator).
  For a typed and a default parameter the node has the text of its \<open>name\<close> field, when
  there is one, and the texts of its children.
\<close>

datatype param_child =
    Identifier string
  | TypedParameter "string option" "string list"
  | DefaultParameter "string option" "string list"
  | OtherChild string

record node =
  n_text :: string
  n_name :: "string option"
  n_parameters :: "param_child list option"

text \<open>
  \<open>child.child_by_field_name("name") or child.children[0] if child.children else None\<close>:
  the conditional binds weaker than \<open>or\<close>.
\<close>

definition name_child :: "string option \<Rightarrow> string list \<Rightarrow> string option" where
  "name_child name_field children =
     (if children \<noteq> []
      then (case name_field of Some n \<Rightarrow> Some n | None \<Rightarrow> Some (hd children))
      else None)"

text \<open>The loop over \<open>params_node.children\<close>, appending to \<open>signature["params"]\<close>.\<close>

fun param_names :: "param_child list \<Rightarrow> string list" where
  "param_names [] = []"
| "param_names (Identifier param_name # children) = param_name # param_names children"
| "param_names (TypedParameter name_field chs # children) =
     (case name_child name_field chs of
        Some param_name \<Rightarrow> param_name # param_names children
      | None \<Rightarrow> param_names children)"
| "param_names (DefaultParameter name_field chs # children) =
     (case name_child name_field chs of
        Some param_name \<Rightarrow> param_name # param_names children
      | None \<Rightarrow> param_names children)"
| "param_names (OtherChild t # children) = param_names children"

definition extract_signature :: "node \<Rightarrow> signature" where
  "extract_signature nd =
     \<lparr>params = Some (case n_parameters nd of
                       Some children \<Rightarrow> param_names children
                     | None \<Rightarrow> []),
      returns = None\<rparr>"

text \<open>\<open>d[k] = v\<close> on a Python dict: a present key keeps its place, a new key goes last.\<close>

fun dict_set :: "('k \<times> 'v) list \<Rightarrow> 'k \<Rightarrow> 'v \<Rightarrow> ('k \<times> 'v) list" where
  "dict_set [] k v = [(k, v)]"
| "dict_set ((k', v') # kvs) k v =
     (if k' = k then (k, v) # kvs else (k', v') # dict_set kvs k v)"

text \<open>
  The body of the loop for one captured node. The state is \<open>self.index\<close> together with
  \<open>extracted_chunks\<close>. SHA-256 is not modelled: \<open>sha256\<close> stands for
  \<open>hashlib.sha256(s.encode("utf8")).hexdigest()\<close>. The code binds \<open>chunk_id\<close> and
  does not read it again.
\<close>

definition stored_entry :: "string \<Rightarrow> node \<Rightarrow> chunk_data" where
  "stored_entry current_file nd =
     Structured \<lparr>e_source = Some (n_text nd),
                 e_filename = Some current_file,
                 e_signature = Some (extract_signature nd)\<rparr>"

definition index_node ::
  "(string \<Rightarrow> string) \<Rightarrow> string \<Rightarrow> string \<Rightarrow> node \<Rightarrow>
   index \<times> (string \<times> string) list \<Rightarrow> index \<times> (string \<times> string) list" where
  "index_node sha256 current_file capture_name nd st =
     (if capture_name \<in> set [''function'', ''class'']
      then (let chunk_source = n_text nd in
            case n_name nd of
              Some func_name \<Rightarrow>
                (let chunk_id = sha256 chunk_source
                 in (dict_set (fst st) func_name (stored_entry current_file nd),
                     dict_set (snd st) func_name chunk_source))
            | None \<Rightarrow> st)
      else st)"

text \<open>The two nested loops over \<open>captures.items()\<close>.\<close>

fun index_captures ::
  "(string \<Rightarrow> string) \<Rightarrow> string \<Rightarrow> (string \<times> node list) list \<Rightarrow>
   index \<times> (string \<times> string) list \<Rightarrow> index \<times> (string \<times> string) list" where
  "index_captures sha256 current_file [] st = st"
| "index_captures sha256 current_file ((capture_name, nodes) # captures) st =
     index_captures sha256 current_file captures
       (foldl (\<lambda>st nd. index_node sha256 current_file capture_name nd st) st nodes)"

datatype indexer_error = ParserNotInitialized

text \<open>
  \<open>Indexer.parse_file\<close>: \<open>parser_ok\<close> says whether \<open>self.parser\<close> is set,
  \<open>current_file\<close> is the stem of the path, \<open>captures\<close> is what the query cursor returns
  on the parsed file, \<open>index\<close> is \<open>self.index\<close> before the call. The result is the
  index after the call and the returned \<open>extracted_chunks\<close>.
\<close>

definition parse_file ::
  "(string \<Rightarrow> string) \<Rightarrow> bool \<Rightarrow> string \<Rightarrow> (string \<times> node list) list \<Rightarrow> index \<Rightarrow>
   indexer_error + index \<times> (string \<times> string) list" where
  "parse_file sha256 parser_ok current_file captures index =
     (if \<not> parser_ok then Inl ParserNotInitialized
      else Inr (index_captures sha256 current_file captures (index, [])))"

section \<open>The deterministic assembler (assembler bridge)\<close>

text \<open>The triple returned by the assemblers: \<open>reasoning\<close>, \<open>code\<close>, \<open>filename\<close>.\<close>

record assembly_result =
  reasoning :: string
  code :: string
  filename :: string

text \<open>\<open>str(n)\<close> of a natural number.\<close>

fun str_nat :: "nat \<Rightarrow> string" where
  "str_nat n =
     (if n < 10 then [char_of (48 + n)]
      else str_nat (n div 10) @ [char_of (48 + n mod 10)])"

declare str_nat.simps [simp del]

text \<open>Truth value of a variable that is \<open>None\<close> or a string.\<close>

definition truthy :: "string option \<Rightarrow> bool" where
  "truthy v = (case v of None \<Rightarrow> False | Some s \<Rightarrow> s \<noteq> [])"

definition chunk_filename :: "chunk \<Rightarrow> string" where
  "chunk_filename c = (case c_filename c of Some f \<Rightarrow> f | None \<Rightarrow> ''unknown'')"

definition chunk_func_name :: "chunk \<Rightarrow> string" where
  "chunk_func_name c = (case c_func_name c of Some f \<Rightarrow> f | None \<Rightarrow> ''unknown'')"

text \<open>The parameters a call is built from: those of the signature, without a leading \<open>self\<close>.\<close>

definition call_params :: "chunk \<Rightarrow> string list" where
  "call_params c =
     (let signature = (case c_signature c of
                         Some g \<Rightarrow> g
                       | None \<Rightarrow> \<lparr>params = Some [], returns = None\<rparr>);
          ps = (case params signature of Some ps \<Rightarrow> ps | None \<Rightarrow> [])
      in if ps \<noteq> [] \<and> hd ps = ''self'' then tl ps else ps)"

text \<open>
  \<open>imports\<close> maps a file name to the list of its function names, in first-seen order:
  a new file gets an empty list, and the name is appended unless it is there already.
\<close>

definition add_import_once ::
  "(string \<times> string list) list \<Rightarrow> string \<Rightarrow> string \<Rightarrow> (string \<times> string list) list" where
  "add_import_once imports fname func_name =
     (case map_of imports fname of
        None \<Rightarrow> dict_set imports fname [func_name]
      | Some funcs \<Rightarrow>
          if func_name \<notin> set funcs then dict_set imports fname (funcs @ [func_name])
          else imports)"

definition import_lines :: "(string \<times> string list) list \<Rightarrow> string list" where
  "import_lines imports =
     map (\<lambda>(f, funcs). ''from '' @ f @ '' import '' @ join '', '' funcs) imports"

record func_info =
  fi_name :: string
  fi_params :: "string list"
  fi_param_count :: nat

definition function_info_of :: "chunk \<Rightarrow> func_info" where
  "function_info_of c =
     \<lparr>fi_name = chunk_func_name c,
      fi_params = call_params c,
      fi_param_count = length (call_params c)\<rparr>"

text \<open>
  The loop \<open>for j in range(param_count)\<close> that builds the argument list of one call;
  the state is \<open>args\<close> and \<open>number_idx\<close>.
\<close>

definition arg_step ::
  "string option \<Rightarrow> string list \<Rightarrow> string list \<times> nat \<Rightarrow> nat \<Rightarrow> string list \<times> nat" where
  "arg_step result_var numbers st j =
     (let args = fst st; number_idx = snd st
      in if truthy result_var \<and> j = 0
         then (args @ [case result_var of Some v \<Rightarrow> v | None \<Rightarrow> []], number_idx)
         else if number_idx < length numbers
         then (args @ [numbers ! number_idx], number_idx + 1)
         else (args @ [str_nat (10 + j)], number_idx))"

definition build_args ::
  "string option \<Rightarrow> string list \<Rightarrow> nat \<Rightarrow> nat \<Rightarrow> string list \<times> nat" where
  "build_args result_var numbers number_idx param_count =
     foldl (arg_step result_var numbers) ([], number_idx) [0..<param_count]"

text \<open>The loop over \<open>enumerate(function_info)\<close>: one step comment and one call each.\<close>

record asm_state =
  result_var :: "string option"
  number_idx :: nat
  code_lines :: "string list"

definition emit_call :: "string list \<Rightarrow> asm_state \<Rightarrow> nat \<times> func_info \<Rightarrow> asm_state" where
  "emit_call numbers st item =
     (let i = fst item; func_name = fi_name (snd item);
          param_count = fi_param_count (snd item);
          step = ''# Step '' @ str_nat (i + 1) @ '': Call '' @ func_name @ '' (''
                   @ str_nat param_count @ '' params)'';
          built = build_args (result_var st) numbers (number_idx st) param_count;
          arg_str = join '', '' (fst built)
      in if param_count = 0
         then st\<lparr>number_idx := snd built,
                 code_lines := code_lines st @ [step, func_name @ ''()'']\<rparr>
         else \<lparr>result_var = Some ''result'',
               number_idx = snd built,
               code_lines = code_lines st
                  @ [step, ''result = '' @ func_name @ ''('' @ arg_str @ '')'']\<rparr>)"

definition print_result :: string where
  "print_result = ''print(f'Result: {result}')''"

definition build_deterministic_code :: "chunk list \<Rightarrow> string \<Rightarrow> assembly_result" where
  "build_deterministic_code chunks query =
     (if chunks = []
      then \<lparr>reasoning = ''ERROR: No matching chunks found. Cannot proceed.'',
            code = ''# Error: Insufficient data for assembly'',
            filename = ''output.py''\<rparr>
      else (let imports = foldl (\<lambda>imports c.
                             add_import_once imports (chunk_filename c) (chunk_func_name c))
                           [] chunks;
                function_info = map function_info_of chunks;
                import_block = join [NL] (import_lines imports);
                numbers = findall is_digit query;
                st = foldl (emit_call numbers)
                       \<lparr>result_var = None, number_idx = 0, code_lines = [import_block, []]\<rparr>
                       (zip [0..<length function_info] function_info);
                lines = (if truthy (result_var st)
                         then code_lines st @ [[], print_result]
                         else code_lines st)
            in \<lparr>reasoning = ''Deterministic assembly using '' @ str_nat (length chunks)
                    @ '' chunks with signature-aware calls: ''
                    @ join '', '' (map fi_name function_info),
                code = join [NL] lines,
                filename = ''output.py''\<rparr>))"

section \<open>The constrained assembler (assembler bridge)\<close>

subsection \<open>Cleaning the model's code\<close>

definition fence :: string where
  "fence = ''```''"

text \<open>
  The first substitution of \<open>clean_code\<close> deletes, at the start of a line, a fence, an
  optional language word \<open>python\<close> or \<open>py\<close>, and white space. The flag \<open>bol\<close> says
  that the position is at the start of the text or follows a newline of the text. The
  greedy white-space repetition takes the whole run of white space, newlines included,
  so the optional newline after it is left with nothing.
\<close>

function strip_open_fences :: "bool \<Rightarrow> string \<Rightarrow> string" where
  "strip_open_fences bol [] = []"
| "strip_open_fences bol (c # cs) =
     (if bol \<and> prefix fence (c # cs)
      then (let r1 = drop (length fence) (c # cs);
                r2 = (if prefix ''python'' r1 then drop (length ''python'') r1
                      else if prefix ''py'' r1 then drop (length ''py'') r1
                      else r1);
                ws = takeWhile is_space r2
            in strip_open_fences (ws \<noteq> [] \<and> last ws = NL) (dropWhile is_space r2))
      else c # strip_open_fences (c = NL) cs)"
  by pat_completeness auto
termination
proof (relation "measure (\<lambda>(bol, s). length s)", goal_cases)
  case 1
  show ?case by simp
next
  case (2 bol c cs r1 r2 ws)
  have "length (dropWhile is_space r2) \<le> length r2"
    by (rule length_dropWhile_le)
  also have "length r2 \<le> length r1"
    using 2 by (auto split: if_splits)
  also have "length r1 < length (c # cs)"
    using 2 by (simp add: fence_def)
  finally show ?case by simp
next
  case 3
  then show ?case by simp
qed

text \<open>
  The second substitution deletes an optional newline, a fence and white space up to the
  end of a line. After the fence, the white-space repetition followed by the end-of-line
  anchor takes the longest part of the run of white space that ends at the end of the
  text or just before a newline: the whole run when the text ends with it, the run up to
  its last newline otherwise, and nothing matches when the run is followed by other text
  and has no newline. \<open>fence_tail\<close> is the number of characters so taken.
\<close>

definition fence_tail :: "string \<Rightarrow> nat option" where
  "fence_tail r =
     (let ws = takeWhile is_space r
      in if length ws = length r then Some (length ws)
         else if NL \<in> set ws
         then Some (length ws - Suc (length (takeWhile (\<lambda>c. c \<noteq> NL) (rev ws))))
         else None)"

function strip_close_fences :: "string \<Rightarrow> string" where
  "strip_close_fences [] = []"
| "strip_close_fences (c # cs) =
     (if c = NL \<and> prefix fence cs
      then (case fence_tail (drop (length fence) cs) of
              Some k \<Rightarrow> strip_close_fences (drop (length fence + k) cs)
            | None \<Rightarrow> c # strip_close_fences cs)
      else if prefix fence (c # cs)
      then (case fence_tail (drop (length fence) (c # cs)) of
              Some k \<Rightarrow> strip_close_fences (drop (length fence + k) (c # cs))
            | None \<Rightarrow> c # strip_close_fences cs)
      else c # strip_close_fences cs)"
  by pat_completeness auto
termination
  by (relation "measure length") (auto simp: fence_def)

text \<open>
  The third substitution deletes, at the start of a line, an import from the module
  \<open>output\<close>: the rest of the line goes, with its newline when there is one.
\<close>

function strip_self_imports :: "bool \<Rightarrow> string \<Rightarrow> string" where
  "strip_self_imports bol [] = []"
| "strip_self_imports bol (c # cs) =
     (if bol \<and> prefix ''from output import'' (c # cs)
      then (case dropWhile (\<lambda>x. x \<noteq> NL) (drop (length ''from output import'') (c # cs)) of
              [] \<Rightarrow> []
            | d # ds \<Rightarrow> strip_self_imports True ds)
      else c # strip_self_imports (c = NL) cs)"
  by pat_completeness auto
termination
proof (relation "measure (\<lambda>(bol, s). length s)", goal_cases)
  case 1
  show ?case by simp
next
  case (2 bol c cs d ds)
  have "length (d # ds) \<le> length (drop (length ''from output import'') (c # cs))"
    unfolding 2(2) [symmetric] by (rule length_dropWhile_le)
  then show ?case by simp
next
  case 3
  then show ?case by simp
qed

definition clean_code :: "string \<Rightarrow> string" where
  "clean_code code0 =
     strip (strip_self_imports True (strip_close_fences (strip_open_fences True code0)))"

subsection \<open>The validator chain\<close>

text \<open>\<open>s.split('\n')\<close>: the lines of a text, one more than it has newlines.\<close>

fun split_lines :: "string \<Rightarrow> string list" where
  "split_lines [] = [[]]"
| "split_lines (c # cs) =
     (if c = NL then [] # split_lines cs
      else (case split_lines cs of l # ls \<Rightarrow> (c # l) # ls | [] \<Rightarrow> [[c]]))"

text \<open>\<open>s.split(sep, 1)\<close> for a one-character separator: at most two parts.\<close>

definition split_once :: "char \<Rightarrow> string \<Rightarrow> string list" where
  "split_once sep s =
     (if sep \<in> set s
      then [takeWhile (\<lambda>c. c \<noteq> sep) s, tl (dropWhile (\<lambda>c. c \<noteq> sep) s)]
      else [s])"

text \<open>\<open>str.isidentifier\<close> on ASCII text.\<close>

definition isidentifier :: "string \<Rightarrow> bool" where
  "isidentifier s =
     (case s of
        [] \<Rightarrow> False
      | c # cs \<Rightarrow> (is_upper c \<or> is_lower c \<or> c = CHR ''_'') \<and> list_all is_word cs)"

text \<open>
  The import block of the prompt: here a function name is appended to the list of its
  file every time it occurs.
\<close>

definition add_import ::
  "(string \<times> string list) list \<Rightarrow> string \<Rightarrow> string \<Rightarrow> (string \<times> string list) list" where
  "add_import imports fname func_name =
     (case map_of imports fname of
        None \<Rightarrow> dict_set imports fname [func_name]
      | Some funcs \<Rightarrow> dict_set imports fname (funcs @ [func_name]))"

definition prompt_import_block :: "chunk list \<Rightarrow> string" where
  "prompt_import_block chunks =
     join [NL] (import_lines
       (foldl (\<lambda>imports c. add_import imports (chunk_filename c) (chunk_func_name c))
          [] chunks))"

text \<open>
  \<open>any(fn in code for fn in func_names)\<close>, where a chunk without the key \<open>func_name\<close>
  gives \<open>None\<close>, on which \<open>in\<close> raises a type error: the result \<open>None\<close> here.
\<close>

fun any_func_in :: "string option list \<Rightarrow> string \<Rightarrow> bool option" where
  "any_func_in [] code0 = Some False"
| "any_func_in (None # func_names) code0 = None"
| "any_func_in (Some fn # func_names) code0 =
     (if sublist fn code0 then Some True else any_func_in func_names code0)"

definition sentinels :: "string list" where
  "sentinels = [''result'', ''output'', ''value'', ''total'']"

text \<open>
  The line scan for a use before a definition: true when the scan reaches the return of
  the deterministic code. \<open>defined_vars\<close> is the set of the left-hand sides seen so far.
\<close>

fun use_before_define :: "string set \<Rightarrow> string list \<Rightarrow> bool" where
  "use_before_define defined_vars [] = False"
| "use_before_define defined_vars (raw # lines) =
     (let line = strip raw
      in if sublist ''='' line \<and> \<not> prefix ''#'' line \<and> \<not> prefix ''def '' line
         then (if sublist ''=='' line \<or> sublist ''!='' line
                  \<or> sublist ''<='' line \<or> sublist ''>='' line
               then use_before_define defined_vars lines
               else (case split_once (CHR ''='') line of
                       [l, r] \<Rightarrow>
                         (let lhs = strip l; rhs = strip r
                          in if list_ex (\<lambda>var. sublist var rhs \<and> var \<notin> defined_vars) sentinels
                             then True
                             else if lhs \<noteq> [] \<and> isidentifier lhs
                             then use_before_define (insert lhs defined_vars) lines
                             else use_before_define defined_vars lines)
                     | _ \<Rightarrow> use_before_define defined_vars lines))
         else use_before_define defined_vars lines)"

definition has_print :: "string \<Rightarrow> bool" where
  "has_print code0 = sublist ''print('' code0"

definition has_result_assignment :: "string \<Rightarrow> bool" where
  "has_result_assignment code0 = (sublist ''result ='' code0 \<or> sublist ''result='' code0)"

text \<open>
  What the model's run amounts to. The language model, the search for a JSON object in
  its response and the JSON parser are outside the embedding: the run either finds no
  loaded model, or the generation raises, or the response has no match for the JSON
  pattern, or the match is not valid JSON, or it is a JSON object. Of that object the
  code reads \<open>code\<close>, which may be absent, a string or another JSON value, and
  \<open>reasoning\<close>; the object may carry a \<open>filename\<close>.
\<close>

datatype code_field = CodeAbsent | CodeStr string | CodeNotStr

record model_json =
  j_reasoning :: "string option"
  j_code :: code_field
  j_filename :: "string option"

datatype model_run =
    ModelUnavailable
  | GenerateRaised
  | NoJsonFound
  | JsonDecodeError
  | Parsed model_json

text \<open>
  Where the handling of a parsed response ends: at the return of the model's code, at one
  of the explicit returns of the deterministic code, or in an exception, which the
  handler around the generation catches.
\<close>

datatype route = Return assembly_result | Fallback | Raised

text \<open>
  The completeness rule and the final return. \<open>compiles\<close>, below, stands for the
  built-in \<open>compile\<close> ending without an exception.
\<close>

definition completeness :: "string option \<Rightarrow> string \<Rightarrow> route" where
  "completeness reasoning0 code0 =
     (if \<not> has_print code0 \<and> \<not> has_result_assignment code0 then Fallback
      else Return
        \<lparr>reasoning = (case reasoning0 of Some r \<Rightarrow> r | None \<Rightarrow> ''LLM assembly''),
         code = (if has_result_assignment code0 \<and> \<not> has_print code0
                 then rstrip code0 @ [NL] @ print_result
                 else code0),
         filename = ''output.py''\<rparr>)"

definition inject_imports :: "string \<Rightarrow> string \<Rightarrow> string" where
  "inject_imports import_block code0 =
     (if \<not> sublist import_block code0 then import_block @ [NL, NL] @ code0 else code0)"

definition validate_code ::
  "(string \<Rightarrow> bool) \<Rightarrow> chunk list \<Rightarrow> string option \<Rightarrow> string \<Rightarrow> route" where
  "validate_code compiles chunks reasoning0 raw =
     (let code1 = inject_imports (prompt_import_block chunks) (clean_code raw)
      in case any_func_in (map c_func_name chunks) code1 of
           None \<Rightarrow> Raised
         | Some False \<Rightarrow> Fallback
         | Some True \<Rightarrow>
             if \<not> compiles code1 then Fallback
             else if use_before_define {} (split_lines code1) then Fallback
             else completeness reasoning0 code1)"

text \<open>\<open>data.get('code', '')\<close>: cleaning a value that is not a string raises.\<close>

definition validate :: "(string \<Rightarrow> bool) \<Rightarrow> chunk list \<Rightarrow> model_json \<Rightarrow> route" where
  "validate compiles chunks data =
     (case j_code data of
        CodeNotStr \<Rightarrow> Raised
      | CodeAbsent \<Rightarrow> validate_code compiles chunks (j_reasoning data) []
      | CodeStr s \<Rightarrow> validate_code compiles chunks (j_reasoning data) s)"

text \<open>
  \<open>generate_glue_code\<close> of the bridge. The prompt, and with it \<open>error_context\<close>, only
  feeds the model.
\<close>

definition generate_glue_code ::
  "(string \<Rightarrow> bool) \<Rightarrow> model_run \<Rightarrow> chunk list \<Rightarrow> string \<Rightarrow> assembly_result" where
  "generate_glue_code compiles run chunks query =
     (if chunks = []
      then \<lparr>reasoning = ''ERROR: Set intersection returned empty. No matching code chunks.'',
            code = ''raise RuntimeError('Insufficient data: No matching chunks found')'',
            filename = ''output.py''\<rparr>
      else (case run of
              Parsed data \<Rightarrow>
                (case validate compiles chunks data of
                   Return r \<Rightarrow> r
                 | Fallback \<Rightarrow> build_deterministic_code chunks query
                 | Raised \<Rightarrow> build_deterministic_code chunks query)
            | _ \<Rightarrow> build_deterministic_code chunks query))"

text \<open>
  The script entry: standard input is empty, or not JSON (with the parser's message), or a
  JSON value that is not an object (the attribute error is not caught and nothing is
  printed), or a request whose keys \<open>chunks\<close> and \<open>query\<close> may be absent. The result
  is the object printed, if any.
\<close>

datatype stdin_data =
    NoInput
  | NotJson string
  | NotAnObject
  | Request "chunk list option" "string option"

definition bridge_main ::
  "(string \<Rightarrow> bool) \<Rightarrow> model_run \<Rightarrow> stdin_data \<Rightarrow> assembly_result option" where
  "bridge_main compiles run input_data =
     (case input_data of
        NoInput \<Rightarrow> None
      | NotAnObject \<Rightarrow> None
      | NotJson e \<Rightarrow>
          Some \<lparr>reasoning = ''JSON Parse Error: '' @ e,
                code = ''# Error parsing input'',
                filename = ''output.py''\<rparr>
      | Request chunks0 query0 \<Rightarrow>
          Some (generate_glue_code compiles run
                  (case chunks0 of Some cs \<Rightarrow> cs | None \<Rightarrow> [])
                  (case query0 of Some q \<Rightarrow> q | None \<Rightarrow> [])))"

section \<open>The in-process assembler (assembler.py)\<close>

text \<open>
  \<open>Assembler.generate_glue_code\<close>. The model is absent, or its generation raises, or it
  gives a response; \<open>parse_response\<close> stands for the method of that name, which
  extracts and parses the JSON of the response. The chunks come as a list of source
  strings (legacy) or as a list of dicts.
\<close>

datatype slm = NoModel | GenerateFails | Responds string

datatype retrieved = LegacyChunks "string list" | DictChunks "chunk list"

definition mock_response :: assembly_result where
  "mock_response =
     \<lparr>reasoning = ''MOCK MODE: Model not available or no chunks provided.'',
      code = ''def main():'' @ [NL]
               @ ''    print('This is generated glue code stub.')'' @ [NL]
               @ ''    # Invoking chunks would go here'',
      filename = ''generated_script.py''\<rparr>"

definition assembler_generate_glue_code ::
  "(string \<Rightarrow> assembly_result) \<Rightarrow> slm \<Rightarrow> retrieved \<Rightarrow> string \<Rightarrow> assembly_result" where
  "assembler_generate_glue_code parse_response model retrieved_chunks user_request =
     (let chunks =
            (case retrieved_chunks of
               LegacyChunks ss \<Rightarrow>
                 map (\<lambda>c. \<lparr>c_source = Some c, c_filename = Some ''unknown'',
                           c_func_name = Some ''unknown'', c_signature = None\<rparr>) ss
             | DictChunks cs \<Rightarrow> cs)
      in case model of
           NoModel \<Rightarrow> mock_response
         | GenerateFails \<Rightarrow> mock_response
         | Responds response \<Rightarrow>
             if chunks \<noteq> [] then parse_response response else mock_response)"

subsection \<open>The retriever as the specification words it\<close>





subsection \<open>Legacy index entries\<close>

text \<open>
  An entry re-imported in the legacy form keeps its key and its source text only;
  \<open>as_legacy\<close> is that entry, and \<open>with_legacy_defaults\<close> is a chunk with the two
  fields the legacy form cannot carry set to the defaults of the retriever.
\<close>

definition as_legacy :: "string \<times> chunk_data \<Rightarrow> string \<times> chunk_data" where
  "as_legacy item = (fst item, Legacy (source_of (snd item)))"

definition with_legacy_defaults :: "chunk \<Rightarrow> chunk" where
  "with_legacy_defaults c =
     c\<lparr>c_filename := Some ''unknown'',
       c_signature := Some \<lparr>params = Some [], returns = None\<rparr>\<rparr>"

section \<open>Notions used to state the properties of the indexer\<close>




section \<open>The argument filling as the specification words it\<close>



section \<open>Notions used to state the properties of the assemblers\<close>

text \<open>
  The use-before-define rule as the specification words it: an assignment line has an
  equals sign, is neither a comment nor a definition line and has no comparison operator;
  it is split once at the equals sign; the defined names are the left-hand sides, when
  they are identifiers, of the assignment lines seen so far; the rule trips at the first
  assignment line whose right-hand side mentions a sentinel name that is not defined.
  The remaining definitions are the concrete inputs of the closed statements: a predicate
  for the compiler that accepts every code, a response parser that always returns the mock
  response, a chunk of arity 0, a chunk of arity 1, and the code of the insufficient-data
  result.
\<close>

definition assignment_line :: "string \<Rightarrow> bool" where
  "assignment_line line =
     (sublist ''='' line \<and> \<not> prefix ''#'' line \<and> \<not> prefix ''def '' line \<and>
      \<not> sublist ''=='' line \<and> \<not> sublist ''!='' line \<and>
      \<not> sublist ''<='' line \<and> \<not> sublist ''>='' line)"

definition lhs_of :: "string \<Rightarrow> string" where
  "lhs_of line = strip (takeWhile (\<lambda>c. c \<noteq> CHR ''='') line)"

definition rhs_of :: "string \<Rightarrow> string" where
  "rhs_of line = strip (tl (dropWhile (\<lambda>c. c \<noteq> CHR ''='') line))"

definition defined_by :: "string list \<Rightarrow> string set" where
  "defined_by lines =
     {lhs_of (strip l) | l. l \<in> set lines \<and> assignment_line (strip l) \<and> isidentifier (lhs_of (strip l))}"

definition mentions_undefined :: "string set \<Rightarrow> string \<Rightarrow> bool" where
  "mentions_undefined D rhs = (\<exists>var \<in> set sentinels. sublist var rhs \<and> var \<notin> D)"

definition use_before_define_spec :: "string list \<Rightarrow> bool" where
  "use_before_define_spec lines =
     (\<exists>i < length lines.
        assignment_line (strip (lines ! i)) \<and>
        mentions_undefined (defined_by (take i lines)) (rhs_of (strip (lines ! i))))"

definition accept_all :: "string \<Rightarrow> bool" where
  "accept_all c = True"

definition parse_stub :: "string \<Rightarrow> assembly_result" where
  "parse_stub response = mock_response"

definition foo0 :: chunk where
  "foo0 = \<lparr>c_source = Some (''def foo():'' @ [NL] @ ''    return 1''),
           c_filename = Some ''utils'', c_func_name = Some ''foo'',
           c_signature = Some \<lparr>params = Some [], returns = None\<rparr>\<rparr>"

definition double_chunk :: chunk where
  "double_chunk = \<lparr>c_source = Some (''def double(n):'' @ [NL] @ ''    return 2 * n''),
           c_filename = Some ''mathlib'', c_func_name = Some ''double'',
           c_signature = Some \<lparr>params = Some [''n''], returns = None\<rparr>\<rparr>"


section \<open>Properties of the retriever\<close>













lemma result_chunk_as_legacy:
  "result_chunk (as_legacy item) = with_legacy_defaults (result_chunk item)"
  by (simp add: result_chunk_def as_legacy_def with_legacy_defaults_def source_of_def
      filename_of_def signature_of_def default_signature_def)

lemma search_loop_as_legacy:
  "search_loop ts (map as_legacy index) = map with_legacy_defaults (search_loop ts index)"
  by (induction index) (simp_all add: result_chunk_as_legacy, simp_all add: as_legacy_def source_of_def)

text \<open>
  Claim C9. Retrieving from an index whose entries are in the legacy form yields, for
  every query, the chunks of the structured index with exactly two fields changed:
  \<open>filename\<close> is \<open>unknown\<close> and \<open>signature\<close> is empty (no parameters, no return
  annotation); \<open>source\<close> and \<open>func_name\<close> are unchanged.
\<close>

theorem legacy_reimport_lossy_in_two_fields:
  "search (map as_legacy index) query = map_option (map with_legacy_defaults) (search index query) \<and>
   c_source (with_legacy_defaults c) = c_source c \<and>
   c_func_name (with_legacy_defaults c) = c_func_name c \<and>
   c_filename (with_legacy_defaults c) = Some ''unknown'' \<and>
   c_signature (with_legacy_defaults c) = Some \<lparr>params = Some [], returns = None\<rparr>"
  by (simp add: search_def Let_def search_loop_as_legacy with_legacy_defaults_def)

theorem legacy_reimport_witness:
  "search [(''foo'', Legacy (''def foo(x):'' @ [NL] @ ''    return x''))] ''foo RETURN''
   = Some [\<lparr>c_source = Some (''def foo(x):'' @ [NL] @ ''    return x''),
            c_filename = Some ''unknown'', c_func_name = Some ''foo'',
            c_signature = Some \<lparr>params = Some [], returns = None\<rparr>\<rparr>]"
proof -
  let ?e = "\<lparr>e_source = Some (''def foo(x):'' @ [NL] @ ''    return x''),
             e_filename = Some ''utils'',
             e_signature = Some \<lparr>params = Some [''x''], returns = None\<rparr>\<rparr>"
  have s: "search [(''foo'', Structured ?e)] ''foo RETURN''
     = Some [\<lparr>c_source = Some (''def foo(x):'' @ [NL] @ ''    return x''),
            c_filename = Some ''utils'', c_func_name = Some ''foo'',
            c_signature = Some \<lparr>params = Some [''x''], returns = None\<rparr>\<rparr>]"
    by code_simp
  from legacy_reimport_lossy_in_two_fields [of "[(''foo'', Structured ?e)]" "''foo RETURN''"] s
  show ?thesis
    by (simp add: as_legacy_def source_of_def with_legacy_defaults_def)
qed

section \<open>Properties of the indexer\<close>

lemma index_node_hash_irrelevant:
  "index_node sha256 current_file capture_name nd st
     = index_node sha256' current_file capture_name nd st"
  by (simp add: index_node_def Let_def split: option.splits)

lemma index_captures_hash_irrelevant:
  "index_captures sha256 current_file captures st
     = index_captures sha256' current_file captures st"
proof (induction captures arbitrary: st)
  case Nil
  show ?case by simp
next
  case (Cons a captures)
  obtain capture_name nodes where a: "a = (capture_name, nodes)" by (cases a)
  have "(\<lambda>st nd. index_node sha256 current_file capture_name nd st)
      = (\<lambda>st nd. index_node sha256' current_file capture_name nd st)"
    by (intro ext) (rule index_node_hash_irrelevant)
  then show ?case using Cons.IH by (simp add: a)
qed










text \<open>
  Claim C4. The identifier that \<open>parse_file\<close> computes for a chunk is not kept: an entry
  of the index holds the source, the file name and the signature only, and the index and
  the extracted chunks that a call produces are the same whatever the hash function is.
\<close>

theorem parse_file_discards_chunk_id:
  "parse_file sha256 parser_ok current_file captures index
     = parse_file sha256' parser_ok current_file captures index"
  by (simp add: parse_file_def index_captures_hash_irrelevant [of sha256 _ _ _ sha256'])

section \<open>Properties of the deterministic assembler\<close>


text \<open>
  Claim C5. On an empty chunk list the deterministic assembler returns a result, not an
  exception, but its code is a single comment line: it has no \<open>raise\<close> and does nothing
  when executed. The constrained assembler, on the same input, returns a program that
  raises a runtime error.
\<close>

theorem build_deterministic_code_empty_is_comment:
  "build_deterministic_code [] query =
     \<lparr>reasoning = ''ERROR: No matching chunks found. Cannot proceed.'',
      code = ''# Error: Insufficient data for assembly'',
      filename = ''output.py''\<rparr> \<and>
   prefix ''#'' (code (build_deterministic_code [] query)) \<and>
   NL \<notin> set (code (build_deterministic_code [] query)) \<and>
   \<not> sublist ''raise'' (code (build_deterministic_code [] query)) \<and>
   code (generate_glue_code compiles run [] query)
     = ''raise RuntimeError('Insufficient data: No matching chunks found')''"
proof -
  have c: "code (build_deterministic_code [] query) = ''# Error: Insufficient data for assembly''"
    by (simp add: build_deterministic_code_def)
  have n: "\<not> sublist ''raise'' ''# Error: Insufficient data for assembly''"
    by code_simp
  show ?thesis
    unfolding c using n
    by (simp add: build_deterministic_code_def generate_glue_code_def)
qed



section \<open>Properties of the constrained assembler\<close>

lemma sublist_single: "sublist [c] s \<longleftrightarrow> c \<in> set s"
  by (induction s) (auto simp: sublist_Cons_right)

lemma defined_by_Cons:
  "defined_by (raw # xs) =
     (if assignment_line (strip raw) \<and> isidentifier (lhs_of (strip raw))
      then {lhs_of (strip raw)} else {}) \<union> defined_by xs"
  by (auto simp: defined_by_def)

lemma isidentifier_nonempty: "isidentifier s \<Longrightarrow> s \<noteq> []"
  by (auto simp: isidentifier_def)

lemma use_before_define_step:
  "use_before_define D (raw # lines) =
     (if assignment_line (strip raw)
      then mentions_undefined D (rhs_of (strip raw)) \<or>
           use_before_define (if isidentifier (lhs_of (strip raw)) then insert (lhs_of (strip raw)) D else D) lines
      else use_before_define D lines)"
  using isidentifier_nonempty [of "lhs_of (strip raw)"]
  by (auto simp: assignment_line_def Let_def split_once_def sublist_single lhs_of_def rhs_of_def
      mentions_undefined_def list_ex_iff)

lemma use_before_define_iff:
  "use_before_define D lines \<longleftrightarrow>
     (\<exists>i < length lines.
        assignment_line (strip (lines ! i)) \<and>
        mentions_undefined (D \<union> defined_by (take i lines)) (rhs_of (strip (lines ! i))))"
proof (induction lines arbitrary: D)
  case Nil
  show ?case by simp
next
  case (Cons raw lines)
  have ex: "\<And>P. (\<exists>i < Suc (length lines). P i) \<longleftrightarrow> P 0 \<or> (\<exists>i < length lines. P (Suc i))"
    by (metis less_Suc_eq_0_disj)
  show ?case
    unfolding use_before_define_step Cons.IH
    by (simp add: ex defined_by_Cons defined_by_def [of "[]"] Un_commute insert_commute)
qed

lemma use_before_define_refines:
  "use_before_define {} lines = use_before_define_spec lines"
  by (simp add: use_before_define_iff use_before_define_spec_def)

lemma filename_build_deterministic_code:
  "filename (build_deterministic_code chunks query) = ''output.py''"
  by (simp add: build_deterministic_code_def Let_def)

lemma completeness_Return:
  "completeness re c = Return r \<Longrightarrow>
     filename r = ''output.py'' \<and> (has_print c \<or> has_result_assignment c) \<and>
     code r = (if has_print c then c else rstrip c @ [NL] @ print_result) \<and>
     reasoning r = (case re of Some x \<Rightarrow> x | None \<Rightarrow> ''LLM assembly'')"
  by (auto simp: completeness_def split: if_splits)

lemma any_func_in_True:
  "any_func_in fs c = Some True \<Longrightarrow> \<exists>fn. Some fn \<in> set fs \<and> sublist fn c"
  by (induction fs c rule: any_func_in.induct) (auto split: if_splits)

lemma sublist_inject_imports: "sublist b (inject_imports b c)"
  by (simp add: inject_imports_def)

lemma validate_code_Return:
  assumes "validate_code compiles chunks re raw = Return r"
  shows "\<exists>code1. code1 = inject_imports (prompt_import_block chunks) (clean_code raw) \<and>
           any_func_in (map c_func_name chunks) code1 = Some True \<and>
           compiles code1 \<and> \<not> use_before_define {} (split_lines code1) \<and>
           completeness re code1 = Return r"
  using assms
  by (auto simp: validate_code_def Let_def split: option.splits bool.splits if_splits)

lemma validate_code_trips:
  assumes "use_before_define {} (split_lines (inject_imports (prompt_import_block chunks) (clean_code raw)))"
  shows "validate_code compiles chunks re raw \<in> {Fallback, Raised}"
  using assms
  by (auto simp: validate_code_def Let_def split: option.splits bool.splits)

lemma generate_glue_code_cases:
  "generate_glue_code compiles run chunks query =
     (if chunks = []
      then \<lparr>reasoning = ''ERROR: Set intersection returned empty. No matching code chunks.'',
            code = ''raise RuntimeError('Insufficient data: No matching chunks found')'',
            filename = ''output.py''\<rparr>
      else case run of
             Parsed data \<Rightarrow>
               (case j_code data of
                  CodeNotStr \<Rightarrow> build_deterministic_code chunks query
                | CodeAbsent \<Rightarrow>
                    (case validate_code compiles chunks (j_reasoning data) [] of
                       Return r \<Rightarrow> r | _ \<Rightarrow> build_deterministic_code chunks query)
                | CodeStr s \<Rightarrow>
                    (case validate_code compiles chunks (j_reasoning data) s of
                       Return r \<Rightarrow> r | _ \<Rightarrow> build_deterministic_code chunks query))
           | _ \<Rightarrow> build_deterministic_code chunks query)"
  by (simp add: generate_glue_code_def validate_def split: model_run.splits code_field.splits route.splits)

lemma generate_glue_code_filename:
  "filename (generate_glue_code compiles run chunks query) = ''output.py''"
  by (auto simp: generate_glue_code_cases filename_build_deterministic_code
      dest: validate_code_Return completeness_Return
      split: model_run.splits code_field.splits route.splits)

lemma generate_glue_code_ignores_filename:
  "generate_glue_code compiles (Parsed (data\<lparr>j_filename := f\<rparr>)) chunks query
     = generate_glue_code compiles (Parsed data) chunks query"
  by (simp add: generate_glue_code_def validate_def split: code_field.splits)

text \<open>
  Claim C10. On every return path of the constrained assembler, of the deterministic
  assembler and of the script entry, the \<open>filename\<close> of the result is \<open>output.py\<close>;
  a \<open>filename\<close> in the model's JSON does not change the result.
\<close>

theorem result_filename_is_output_py:
  "filename (generate_glue_code compiles run chunks query) = ''output.py'' \<and>
   filename (build_deterministic_code chunks query) = ''output.py'' \<and>
   (bridge_main compiles run input_data = Some r \<longrightarrow> filename r = ''output.py'') \<and>
   generate_glue_code compiles (Parsed (data\<lparr>j_filename := f\<rparr>)) chunks query
     = generate_glue_code compiles (Parsed data) chunks query"
  by (auto simp: generate_glue_code_filename filename_build_deterministic_code
      generate_glue_code_ignores_filename bridge_main_def split: stdin_data.splits)


lemma has_print_print_result: "has_print (c @ print_result)"
proof -
  have "print_result = ''print('' @ ''f'Result: {result}')''"
    by (simp add: print_result_def)
  then have "c @ print_result = c @ ''print('' @ ''f'Result: {result}')''"
    by simp
  then show ?thesis
    unfolding has_print_def by (metis sublist_appendI)
qed

lemma completeness_has_print:
  "completeness re c = Return r \<Longrightarrow> has_print (code r)"
  using has_print_print_result [of "rstrip c @ [NL]"]
  by (auto dest!: completeness_Return split: if_splits)






text \<open>
  Claim C7. When the line scan of the model's code (cleaned, with the import block
  injected) finds an assignment line whose right-hand side mentions one of the names
  \<open>result\<close>, \<open>output\<close>, \<open>value\<close>, \<open>total\<close> that is not yet the left-hand side of an
  earlier assignment line, the constrained assembler returns the deterministic code. The
  scan of the source is the scan so described. The code \<open>result = double(result)\<close>,
  \<open>print(result)\<close> with the single chunk \<open>double\<close> mentions a retrieved function and
  trips the scan.
\<close>

theorem use_before_define_falls_back:
  "(chunks \<noteq> [] \<and>
    use_before_define_spec
      (split_lines (inject_imports (prompt_import_block chunks) (clean_code s))) \<longrightarrow>
      generate_glue_code compiles
        (Parsed \<lparr>j_reasoning = re, j_code = CodeStr s, j_filename = fn\<rparr>) chunks query
        = build_deterministic_code chunks query) \<and>
   use_before_define {} lines = use_before_define_spec lines \<and>
   any_func_in (map c_func_name [double_chunk])
     (inject_imports (prompt_import_block [double_chunk])
        (clean_code (''result = double(result)'' @ [NL] @ ''print(result)''))) = Some True \<and>
   use_before_define_spec
     (split_lines (inject_imports (prompt_import_block [double_chunk])
        (clean_code (''result = double(result)'' @ [NL] @ ''print(result)'')))) \<and>
   generate_glue_code compiles
     (Parsed \<lparr>j_reasoning = re,
             j_code = CodeStr (''result = double(result)'' @ [NL] @ ''print(result)''),
             j_filename = fn\<rparr>) [double_chunk] query
     = build_deterministic_code [double_chunk] query"
proof -
  have general: "generate_glue_code compiles
        (Parsed \<lparr>j_reasoning = re, j_code = CodeStr s, j_filename = fn\<rparr>) chunks query
        = build_deterministic_code chunks query"
    if "chunks \<noteq> []" "use_before_define_spec
      (split_lines (inject_imports (prompt_import_block chunks) (clean_code s)))"
    for chunks s
    using that validate_code_trips [of chunks s compiles re]
    by (auto simp: generate_glue_code_cases use_before_define_refines split: route.splits)
  let ?code1 = "inject_imports (prompt_import_block [double_chunk])
        (clean_code (''result = double(result)'' @ [NL] @ ''print(result)''))"
  have a: "any_func_in (map c_func_name [double_chunk]) ?code1 = Some True"
    by code_simp
  have "use_before_define {} (split_lines ?code1)"
    by code_simp
  then have u: "use_before_define_spec (split_lines ?code1)"
    by (simp add: use_before_define_refines)
  show ?thesis
    using general [of "[double_chunk]", OF _ u] general a u
    by (simp add: use_before_define_refines)
qed

text \<open>
  Claim C2, as stated, fails for the in-process assembler: without a model it returns the
  mock response, whose code mentions no retrieved function and is not the deterministic
  code.
\<close>

theorem in_process_assembler_mock_counterexample:
  "code (assembler_generate_glue_code parse_stub NoModel (DictChunks [foo0]) ''invoke foo function'')
     = ''def main():'' @ [NL] @ ''    print('This is generated glue code stub.')'' @ [NL]
       @ ''    # Invoking chunks would go here'' \<and>
   \<not> sublist ''foo''
       (code (assembler_generate_glue_code parse_stub NoModel (DictChunks [foo0]) ''invoke foo function'')) \<and>
   assembler_generate_glue_code parse_stub NoModel (DictChunks [foo0]) ''invoke foo function''
     \<noteq> build_deterministic_code [foo0] ''invoke foo function''"
  by code_simp

text \<open>
  Claim C2, amended to the constrained assembler of the bridge. For a non-empty chunk
  list: when the model is unavailable, its invocation fails or its response has no valid
  JSON, the result is that of the deterministic assembler; and in every case the result
  is that of the deterministic assembler, or the model's code, cleaned and with the import
  block injected, contains the import block, contains a retrieved function name,
  compiles, passes the use-before-define scan and the completeness rule, and is returned
  as it is when it has a print call, and with its trailing white space removed and a
  print of \<open>result\<close> appended otherwise.
\<close>

theorem bridge_grounding:
  "chunks \<noteq> [] \<longrightarrow>
     (run \<in> {ModelUnavailable, GenerateRaised, NoJsonFound, JsonDecodeError} \<longrightarrow>
        generate_glue_code compiles run chunks query = build_deterministic_code chunks query) \<and>
     (generate_glue_code compiles run chunks query = build_deterministic_code chunks query \<or>
      (\<exists>data raw code1.
         run = Parsed data \<and>
         (j_code data = CodeStr raw \<or> j_code data = CodeAbsent \<and> raw = []) \<and>
         code1 = inject_imports (prompt_import_block chunks) (clean_code raw) \<and>
         sublist (prompt_import_block chunks) code1 \<and>
         (\<exists>c \<in> set chunks. \<exists>fn. c_func_name c = Some fn \<and> sublist fn code1) \<and>
         compiles code1 \<and>
         \<not> use_before_define_spec (split_lines code1) \<and>
         (has_print code1 \<or> has_result_assignment code1) \<and>
         code (generate_glue_code compiles run chunks query)
           = (if has_print code1 then code1 else rstrip code1 @ [NL] @ print_result) \<and>
         has_print (code (generate_glue_code compiles run chunks query))))"
proof (intro impI conjI)
  assume ne: "chunks \<noteq> []"
  let ?r = "generate_glue_code compiles run chunks query"
  show "?r = build_deterministic_code chunks query"
    if "run \<in> {ModelUnavailable, GenerateRaised, NoJsonFound, JsonDecodeError}"
    using that ne by (auto simp: generate_glue_code_def)
  show "?r = build_deterministic_code chunks query \<or>
      (\<exists>data raw code1.
         run = Parsed data \<and>
         (j_code data = CodeStr raw \<or> j_code data = CodeAbsent \<and> raw = []) \<and>
         code1 = inject_imports (prompt_import_block chunks) (clean_code raw) \<and>
         sublist (prompt_import_block chunks) code1 \<and>
         (\<exists>c \<in> set chunks. \<exists>fn. c_func_name c = Some fn \<and> sublist fn code1) \<and>
         compiles code1 \<and>
         \<not> use_before_define_spec (split_lines code1) \<and>
         (has_print code1 \<or> has_result_assignment code1) \<and>
         code ?r = (if has_print code1 then code1 else rstrip code1 @ [NL] @ print_result) \<and>
         has_print (code ?r))"
  proof (cases "?r = build_deterministic_code chunks query")
    case True
    then show ?thesis ..
  next
    case False
    then obtain data raw where d: "run = Parsed data"
      "j_code data = CodeStr raw \<or> j_code data = CodeAbsent \<and> raw = []"
      "validate_code compiles chunks (j_reasoning data) raw = Return ?r"
      using ne
      by (auto simp: generate_glue_code_cases
          split: model_run.splits code_field.splits route.splits)
    define code1 where "code1 = inject_imports (prompt_import_block chunks) (clean_code raw)"
    from validate_code_Return [OF d(3)]
    have v: "any_func_in (map c_func_name chunks) code1 = Some True" "compiles code1"
      "\<not> use_before_define {} (split_lines code1)"
      "completeness (j_reasoning data) code1 = Return ?r"
      by (simp_all add: code1_def)
    from any_func_in_True [OF v(1)]
    have f: "\<exists>c \<in> set chunks. \<exists>fn. c_func_name c = Some fn \<and> sublist fn code1"
      by force
    have i: "sublist (prompt_import_block chunks) code1"
      by (simp add: code1_def sublist_inject_imports)
    from completeness_Return [OF v(4)] completeness_has_print [OF v(4)]
    have c: "has_print code1 \<or> has_result_assignment code1"
      "code ?r = (if has_print code1 then code1 else rstrip code1 @ [NL] @ print_result)"
      "has_print (code ?r)"
      by simp_all
    have "run = Parsed data \<and>
         (j_code data = CodeStr raw \<or> j_code data = CodeAbsent \<and> raw = []) \<and>
         code1 = inject_imports (prompt_import_block chunks) (clean_code raw) \<and>
         sublist (prompt_import_block chunks) code1 \<and>
         (\<exists>c \<in> set chunks. \<exists>fn. c_func_name c = Some fn \<and> sublist fn code1) \<and>
         compiles code1 \<and>
         \<not> use_before_define_spec (split_lines code1) \<and>
         (has_print code1 \<or> has_result_assignment code1) \<and>
         code ?r = (if has_print code1 then code1 else rstrip code1 @ [NL] @ print_result) \<and>
         has_print (code ?r)"
      using d(1,2) v(2,3) f i c
      by (simp add: code1_def use_before_define_refines)
    then show ?thesis by blast
  qed
qed

theorem bridge_grounding_witness:
  "generate_glue_code accept_all ModelUnavailable [double_chunk] ''double 21''
     = build_deterministic_code [double_chunk] ''double 21'' \<and>
   code (generate_glue_code accept_all
      (Parsed \<lparr>j_reasoning = Some ''call double'',
               j_code = CodeStr (''result = double(21)'' @ [NL] @ ''print(result)''),
               j_filename = Some ''other.py''\<rparr>) [double_chunk] ''double 21'')
     = ''from mathlib import double'' @ [NL, NL] @ ''result = double(21)'' @ [NL] @ ''print(result)''"
proof -
  let ?run = "Parsed \<lparr>j_reasoning = Some ''call double'',
               j_code = CodeStr (''result = double(21)'' @ [NL] @ ''print(result)''),
               j_filename = Some ''other.py''\<rparr>"
  have ne: "[double_chunk] \<noteq> []" by simp
  have m: "ModelUnavailable \<in> {ModelUnavailable, GenerateRaised, NoJsonFound, JsonDecodeError}"
    by simp
  have c: "code (generate_glue_code accept_all ?run [double_chunk] ''double 21'')
     = ''from mathlib import double'' @ [NL, NL] @ ''result = double(21)'' @ [NL] @ ''print(result)''"
    by code_simp
  from bridge_grounding [of "[double_chunk]" ModelUnavailable accept_all "''double 21''"] ne m c
  show ?thesis by blast
qed

theorem use_before_define_falls_back_witness:
  "code (generate_glue_code accept_all
      (Parsed \<lparr>j_reasoning = None,
               j_code = CodeStr (''result = double(result)'' @ [NL] @ ''print(result)''),
               j_filename = None\<rparr>) [double_chunk] ''double 21'')
     = ''from mathlib import double'' @ [NL, NL] @ ''# Step 1: Call double (1 params)'' @ [NL]
       @ ''result = double(21)'' @ [NL, NL] @ ''print(f'Result: {result}')''"
proof -
  have d: "code (build_deterministic_code [double_chunk] ''double 21'')
     = ''from mathlib import double'' @ [NL, NL] @ ''# Step 1: Call double (1 params)'' @ [NL]
       @ ''result = double(21)'' @ [NL, NL] @ ''print(f'Result: {result}')''"
    by code_simp
  have ne: "[double_chunk] \<noteq> []" by simp
  from use_before_define_falls_back [of "[double_chunk]" "''result = double(result)'' @ [NL] @ ''print(result)''"
      accept_all None None "''double 21''"] ne d
  show ?thesis by simp
qed


theorem result_filename_is_output_py_witness:
  "bridge_main accept_all ModelUnavailable (NotJson ''Expecting value: line 1 column 1 (char 0)'')
     = Some \<lparr>reasoning = ''JSON Parse Error: Expecting value: line 1 column 1 (char 0)'',
             code = ''# Error parsing input'', filename = ''output.py''\<rparr> \<and>
   filename \<lparr>reasoning = ''JSON Parse Error: Expecting value: line 1 column 1 (char 0)'',
             code = ''# Error parsing input'', filename = ''output.py''\<rparr> = ''output.py''"
proof -
  have b: "bridge_main accept_all ModelUnavailable (NotJson ''Expecting value: line 1 column 1 (char 0)'')
     = Some \<lparr>reasoning = ''JSON Parse Error: Expecting value: line 1 column 1 (char 0)'',
             code = ''# Error parsing input'', filename = ''output.py''\<rparr>"
    by (simp add: bridge_main_def)
  from result_filename_is_output_py [of accept_all ModelUnavailable _ _
      "NotJson ''Expecting value: line 1 column 1 (char 0)''"] b
  show ?thesis by simp
qed

end
